theory Spec2Isabelle
  imports Complex_Main "HOL-Library.Log_Nat"
begin

section \<open>JavaScript strings and numbers used by the components\<close>

text \<open>
  A JavaScript string is a sequence of UTF-16 code units. The labels, keywords and
  numerals handled by \<^verbatim>\<open>MatchPredictionModal.tsx\<close> are English and French text, so a
  string is modelled as a \<^typ>\<open>string\<close> whose characters are the code units 0..255
  (Latin-1): one \<^typ>\<open>char\<close> per code unit, the letter e-acute being \<^term>\<open>char_of (233::nat)\<close>.
  A finite JavaScript number is a double; it is modelled by its exact value, a \<^typ>\<open>rat\<close>,
  and an absent (\<^verbatim>\<open>undefined\<close>, \<^verbatim>\<open>null\<close>) or \<^verbatim>\<open>NaN\<close> field is \<^term>\<open>None\<close>. The
  subtraction \<^verbatim>\<open>100 - x\<close> of the away win-probability bar rounds its exact result to the
  nearest double, ties to the even significand. Player ids are whole numbers.
\<close>

definition toLowerCaseChar :: "char \<Rightarrow> char" where
  \<comment> \<open>\<^verbatim>\<open>A-Z\<close> and the Latin-1 capitals \<^verbatim>\<open>U+00C0..U+00DE\<close> (without the multiplication sign).\<close>
  "toLowerCaseChar c =
     (let n = (of_char c :: nat)
      in if (65 \<le> n \<and> n \<le> 90) \<or> (192 \<le> n \<and> n \<le> 222 \<and> n \<noteq> 215)
         then char_of (n + 32) else c)"

definition toLowerCase :: "string \<Rightarrow> string" where
  "toLowerCase s = map toLowerCaseChar s"

definition toUpperCaseChar :: "char \<Rightarrow> string" where
  \<comment> \<open>\<^verbatim>\<open>a-z\<close> and the Latin-1 small letters; sharp s becomes \<^verbatim>\<open>SS\<close>. The capitals of the
      micro sign and of y-diaeresis lie outside Latin-1 (and outside \<^verbatim>\<open>A-Z\<close>); the two
      characters are kept as they are.\<close>
  "toUpperCaseChar c =
     (let n = (of_char c :: nat)
      in if (97 \<le> n \<and> n \<le> 122) \<or> (224 \<le> n \<and> n \<le> 254 \<and> n \<noteq> 247)
         then [char_of (n - 32)]
         else if n = 223 then ''SS'' else [c])"

definition toUpperCase :: "string \<Rightarrow> string" where
  "toUpperCase s = concat (map toUpperCaseChar s)"

fun startsWith :: "string \<Rightarrow> string \<Rightarrow> bool" where
  "startsWith s [] = True"
| "startsWith [] (k # ks) = False"
| "startsWith (c # cs) (k # ks) = (c = k \<and> startsWith cs ks)"

fun includes_str :: "string \<Rightarrow> string \<Rightarrow> bool" where
  \<comment> \<open>\<^verbatim>\<open>s.includes(k)\<close>: \<^verbatim>\<open>k\<close> occurs in \<^verbatim>\<open>s\<close> as a contiguous substring.\<close>
  "includes_str [] k = (k = [])"
| "includes_str (c # cs) k = (startsWith (c # cs) k \<or> includes_str cs k)"

definition digitChar :: "nat \<Rightarrow> char" where
  "digitChar d = char_of (48 + d)"

fun decimalDigits :: "nat \<Rightarrow> string" where
  "decimalDigits n =
     (if n < 10 then [digitChar n] else decimalDigits (n div 10) @ [digitChar (n mod 10)])"

declare decimalDigits.simps [simp del]

definition numberToString :: "int \<Rightarrow> string" where
  \<comment> \<open>\<^verbatim>\<open>Number::toString\<close> of a whole number (below \<^verbatim>\<open>1e21\<close> in magnitude).\<close>
  "numberToString i =
     (if i < 0 then CHR ''-'' # decimalDigits (nat (- i)) else decimalDigits (nat i))"

fun join :: "string list \<Rightarrow> string \<Rightarrow> string" where
  \<comment> \<open>\<^verbatim>\<open>Array.prototype.join\<close> on an array of strings.\<close>
  "join [] sep = []"
| "join [x] sep = x"
| "join (x # y # ys) sep = x @ sep @ join (y # ys) sep"




definition orZero :: "rat option \<Rightarrow> rat" where
  \<comment> \<open>\<^verbatim>\<open>v || 0\<close> on a possibly absent number: absent, \<^verbatim>\<open>NaN\<close> and \<^verbatim>\<open>0\<close> are falsy.\<close>
  "orZero v = (case v of None \<Rightarrow> 0 | Some x \<Rightarrow> if x = 0 then 0 else x)"



section \<open>MatchPredictionModal: local state and absence selection\<close>

text \<open>
  Modelled from the spec: the type \<^verbatim>\<open>Player\<close> is declared in \<^verbatim>\<open>services/nbaApi\<close>, which is
  not part of the sources. The modal reads the numeric \<^verbatim>\<open>id\<close> and the \<^verbatim>\<open>full_name\<close>.
\<close>

record Player =
  id' :: int
  full_name :: string

record MatchPredictionModal =
  homeMissingPlayers :: "Player list"
  awayMissingPlayers :: "Player list"
  homeSearchQuery :: string
  awaySearchQuery :: string
  homePopoverOpen :: bool
  awayPopoverOpen :: bool
  failedLogos :: "string set"

definition initialState :: MatchPredictionModal where
  \<comment> \<open>The \<^verbatim>\<open>useState\<close> initial values.\<close>
  "initialState =
     \<lparr> homeMissingPlayers = [], awayMissingPlayers = [],
       homeSearchQuery = [], awaySearchQuery = [],
       homePopoverOpen = False, awayPopoverOpen = False,
       failedLogos = {} \<rparr>"

definition addHomeMissingPlayer :: "Player \<Rightarrow> MatchPredictionModal \<Rightarrow> MatchPredictionModal" where
  "addHomeMissingPlayer player s =
     (let s1 = (if find (\<lambda>p. id' p = id' player) (homeMissingPlayers s) = None
                then s\<lparr>homeMissingPlayers := homeMissingPlayers s @ [player]\<rparr>
                else s)
      in s1\<lparr>homeSearchQuery := [], homePopoverOpen := False\<rparr>)"

definition addAwayMissingPlayer :: "Player \<Rightarrow> MatchPredictionModal \<Rightarrow> MatchPredictionModal" where
  "addAwayMissingPlayer player s =
     (let s1 = (if find (\<lambda>p. id' p = id' player) (awayMissingPlayers s) = None
                then s\<lparr>awayMissingPlayers := awayMissingPlayers s @ [player]\<rparr>
                else s)
      in s1\<lparr>awaySearchQuery := [], awayPopoverOpen := False\<rparr>)"

definition removeHomeMissingPlayer :: "int \<Rightarrow> MatchPredictionModal \<Rightarrow> MatchPredictionModal" where
  "removeHomeMissingPlayer playerId s =
     s\<lparr>homeMissingPlayers := filter (\<lambda>p. id' p \<noteq> playerId) (homeMissingPlayers s)\<rparr>"

definition removeAwayMissingPlayer :: "int \<Rightarrow> MatchPredictionModal \<Rightarrow> MatchPredictionModal" where
  "removeAwayMissingPlayer playerId s =
     s\<lparr>awayMissingPlayers := filter (\<lambda>p. id' p \<noteq> playerId) (awayMissingPlayers s)\<rparr>"

definition handleLogoError :: "string \<Rightarrow> MatchPredictionModal \<Rightarrow> MatchPredictionModal" where
  "handleLogoError teamId s = s\<lparr>failedLogos := insert teamId (failedLogos s)\<rparr>"

text \<open>
  The user's interactions with the modal: each one runs the handler the markup binds to
  it, on the state of the current render.
\<close>

datatype action =
    AddHome Player
  | AddAway Player
  | RemoveHome int
  | RemoveAway int
  | SetHomeSearchQuery string
  | SetAwaySearchQuery string
  | SetHomePopoverOpen bool
  | SetAwayPopoverOpen bool
  | LogoError string

fun step :: "MatchPredictionModal \<Rightarrow> action \<Rightarrow> MatchPredictionModal" where
  "step s (AddHome p) = addHomeMissingPlayer p s"
| "step s (AddAway p) = addAwayMissingPlayer p s"
| "step s (RemoveHome i) = removeHomeMissingPlayer i s"
| "step s (RemoveAway i) = removeAwayMissingPlayer i s"
| "step s (SetHomeSearchQuery q) = s\<lparr>homeSearchQuery := q\<rparr>"
| "step s (SetAwaySearchQuery q) = s\<lparr>awaySearchQuery := q\<rparr>"
| "step s (SetHomePopoverOpen b) = s\<lparr>homePopoverOpen := b\<rparr>"
| "step s (SetAwayPopoverOpen b) = s\<lparr>awayPopoverOpen := b\<rparr>"
| "step s (LogoError t) = handleLogoError t s"

definition run :: "action list \<Rightarrow> MatchPredictionModal" where
  "run acts = foldl step initialState acts"

definition distinctIds :: "MatchPredictionModal \<Rightarrow> bool" where
  \<comment> \<open>The invariant of the two absence lists: no player id occurs twice on a side.\<close>
  "distinctIds s =
     (distinct (map id' (homeMissingPlayers s)) \<and> distinct (map id' (awayMissingPlayers s)))"

definition queryKey :: "string \<Rightarrow> string \<Rightarrow> MatchPredictionModal \<Rightarrow> string list" where
  \<comment> \<open>The \<^verbatim>\<open>queryKey\<close> array of the match-prediction query.\<close>
  "queryKey homeTeamId awayTeamId s =
     [''match-prediction'', homeTeamId, awayTeamId,
      join (map numberToString (map id' (homeMissingPlayers s))) '','',
      join (map numberToString (map id' (awayMissingPlayers s))) '','']"


section \<open>MatchPredictionModal: derived display values\<close>


abbreviation (input) badge_gray :: string where
  "badge_gray \<equiv> ''bg-gray-500/20 text-gray-400 border-gray-500/30''"
abbreviation (input) badge_amber :: string where
  "badge_amber \<equiv> ''bg-amber-500/20 text-amber-400 border-amber-500/30''"
abbreviation (input) badge_emerald :: string where
  "badge_emerald \<equiv> ''bg-emerald-500/20 text-emerald-400 border-emerald-500/30''"
abbreviation (input) badge_red :: string where
  "badge_red \<equiv> ''bg-red-500/20 text-red-400 border-red-500/30''"
abbreviation (input) badge_blue :: string where
  "badge_blue \<equiv> ''bg-blue-500/20 text-blue-400 border-blue-500/30''"

abbreviation (input) e_acute :: char where
  "e_acute \<equiv> char_of (233 :: nat)"

definition getConfidenceBadgeColor :: "string option \<Rightarrow> string" where
  \<comment> \<open>\<^verbatim>\<open>!level\<close> holds for \<^verbatim>\<open>undefined\<close>, \<^verbatim>\<open>null\<close> and the empty string.\<close>
  "getConfidenceBadgeColor level =
     (case level of
        None \<Rightarrow> badge_gray
      | Some l \<Rightarrow>
          if l = [] then badge_gray
          else
            let lower = toLowerCase l
            in if includes_str lower (''ind'' @ [e_acute] @ ''cis'')
                  \<or> includes_str lower ''tight''
                  \<or> includes_str lower (''serr'' @ [e_acute])
               then badge_amber
               else if includes_str lower ''solid'' \<or> includes_str lower ''solide''
               then badge_emerald
               else if includes_str lower ''blowout''
               then badge_red
               else badge_blue)"






section \<open>PlayerDetailsModal\<close>

datatype StatCategory = PTS | REB | AST | PRA

fun statKey :: "StatCategory \<Rightarrow> string" where
  \<comment> \<open>The string each member of the union type is.\<close>
  "statKey PTS = ''PTS''"
| "statKey REB = ''REB''"
| "statKey AST = ''AST''"
| "statKey PRA = ''PRA''"

text \<open>
  Modelled from the spec: the types \<^verbatim>\<open>PlayerFullPrediction\<close> and the history record are
  declared in \<^verbatim>\<open>services/nbaApi\<close>, which is not part of the sources. The fields the
  component reads are kept: \<^verbatim>\<open>predicted_stats\<close> is an object indexed by the name of the
  statistic, \<^verbatim>\<open>advanced_metrics_projected.PRA\<close> the combined figure, \<^verbatim>\<open>h2h_avg\<close> the
  head-to-head averages with their games-played count \<^verbatim>\<open>GP\<close>.
\<close>

record PlayerFullPrediction =
  player_id :: int
  team :: string
  predicted_stats :: "string \<Rightarrow> rat option"
  advanced_PRA :: rat

record Averages =
  GP :: rat
  stat_avg :: "string \<Rightarrow> rat option"

record PlayerHistory =
  recent_form_avg :: "Averages option"
  h2h_avg :: "Averages option"

definition getProjectionValue :: "PlayerFullPrediction \<Rightarrow> StatCategory \<Rightarrow> rat" where
  "getProjectionValue player stat =
     (if stat = PRA then advanced_PRA player
      else orZero (predicted_stats player (statKey stat)))"

subsection \<open>parseFloat\<close>

datatype number = NaN | NegInfinity | Num rat | PosInfinity

fun gt_zero :: "number \<Rightarrow> bool" where
  \<comment> \<open>\<^verbatim>\<open>x > 0\<close>; every comparison with \<^verbatim>\<open>NaN\<close> is false.\<close>
  "gt_zero NaN = False"
| "gt_zero NegInfinity = False"
| "gt_zero (Num v) = (v > 0)"
| "gt_zero PosInfinity = True"

fun le_zero :: "number \<Rightarrow> bool" where
  \<comment> \<open>\<^verbatim>\<open>x <= 0\<close>\<close>
  "le_zero NaN = False"
| "le_zero NegInfinity = True"
| "le_zero (Num v) = (v \<le> 0)"
| "le_zero PosInfinity = False"

definition isStrWhiteSpaceChar :: "char \<Rightarrow> bool" where
  \<comment> \<open>TAB, LF, VT, FF, CR, space and the no-break space.\<close>
  "isStrWhiteSpaceChar c = ((of_char c :: nat) \<in> {9, 10, 11, 12, 13, 32, 160})"

definition isDecimalDigit :: "char \<Rightarrow> bool" where
  "isDecimalDigit c = (48 \<le> (of_char c :: nat) \<and> (of_char c :: nat) \<le> 57)"

definition digitsValue :: "string \<Rightarrow> nat" where
  "digitsValue ds = foldl (\<lambda>a c. 10 * a + ((of_char c :: nat) - 48)) 0 ds"

definition exponentPart :: "string \<Rightarrow> int" where
  \<comment> \<open>The value of an \<^verbatim>\<open>ExponentPart\<close> at the head of the text, 0 when there is none.\<close>
  "exponentPart r =
     (case r of
        [] \<Rightarrow> 0
      | c # r1 \<Rightarrow>
          if c = CHR ''e'' \<or> c = CHR ''E'' then
            (case r1 of
               [] \<Rightarrow> 0
             | d # r2 \<Rightarrow>
                 if d = CHR ''-'' then - int (digitsValue (takeWhile isDecimalDigit r2))
                 else if d = CHR ''+'' then int (digitsValue (takeWhile isDecimalDigit r2))
                 else int (digitsValue (takeWhile isDecimalDigit r1)))
          else 0)"

definition toNumber :: "rat \<Rightarrow> number" where
  \<comment> \<open>The double nearest to a literal's value: magnitudes up to \<^verbatim>\<open>2^-1075\<close> round to zero
      and those from \<^verbatim>\<open>2^1024 - 2^970\<close> on to an infinity. In between the significand
      is rounded, which keeps the sign; the model keeps the exact value there.\<close>
  "toNumber v =
     (if \<bar>v\<bar> \<le> 1 / 2 ^ 1075 then Num 0
      else if 2 ^ 1024 - 2 ^ 970 \<le> \<bar>v\<bar> then (if v < 0 then NegInfinity else PosInfinity)
      else Num v)"

definition parseFloat :: "string \<Rightarrow> number" where
  \<comment> \<open>The longest prefix of the trimmed text that is a \<^verbatim>\<open>StrDecimalLiteral\<close>:
      a sign, then \<^verbatim>\<open>Infinity\<close>, or digits with an optional fraction and exponent.\<close>
  "parseFloat inputString =
     (let trimmed = dropWhile isStrWhiteSpaceChar inputString;
          neg = startsWith trimmed ''-'';
          unsigned = (if startsWith trimmed ''-'' \<or> startsWith trimmed ''+''
                      then tl trimmed else trimmed)
      in if startsWith unsigned ''Infinity'' then (if neg then NegInfinity else PosInfinity)
         else
           let intPart = takeWhile isDecimalDigit unsigned;
               rest1 = dropWhile isDecimalDigit unsigned;
               hasDot = startsWith rest1 ''.'';
               fracPart = (if hasDot then takeWhile isDecimalDigit (tl rest1) else []);
               rest2 = (if hasDot then dropWhile isDecimalDigit (tl rest1) else rest1)
           in if intPart = [] \<and> fracPart = [] then NaN
              else
                let e = exponentPart rest2;
                    m = of_nat (digitsValue (intPart @ fracPart)) / 10 ^ length fracPart;
                    v = (if 0 \<le> e then m * 10 ^ nat e else m / 10 ^ nat (- e))
                in toNumber (if neg then - v else v))"

subsection \<open>Local state and handlers\<close>

record CalculatorFetch =
  fetch_player_id :: int
  fetch_projection :: rat
  fetch_line :: number
  fetch_stat :: StatCategory

record PlayerDetailsModal =
  selectedStat :: StatCategory
  bookmakerLine :: string
  calculatorOpen :: bool
  analyzeCalls :: "CalculatorFetch list"

definition initialDetails :: PlayerDetailsModal where
  "initialDetails =
     \<lparr> selectedStat = PTS, bookmakerLine = [], calculatorOpen = False, analyzeCalls = [] \<rparr>"

definition analyzeCalculator :: "PlayerFullPrediction \<Rightarrow> PlayerDetailsModal \<Rightarrow> PlayerDetailsModal" where
  \<comment> \<open>\<^verbatim>\<open>refetch\<close> of the calculator query: one call of \<^verbatim>\<open>getCalculatorAnalysis\<close> with
      the arguments of the current render, recorded in \<^verbatim>\<open>analyzeCalls\<close>.\<close>
  "analyzeCalculator player s =
     s\<lparr>analyzeCalls := analyzeCalls s @
          [\<lparr> fetch_player_id = player_id player,
             fetch_projection = getProjectionValue player (selectedStat s),
             fetch_line = parseFloat (bookmakerLine s),
             fetch_stat = selectedStat s \<rparr>]\<rparr>"

definition handleAnalyze :: "PlayerFullPrediction \<Rightarrow> PlayerDetailsModal \<Rightarrow> PlayerDetailsModal" where
  "handleAnalyze player s =
     (if bookmakerLine s \<noteq> [] \<and> gt_zero (parseFloat (bookmakerLine s))
      then (analyzeCalculator player s)\<lparr>calculatorOpen := True\<rparr>
      else s)"

definition handleStatChange :: "StatCategory \<Rightarrow> PlayerDetailsModal \<Rightarrow> PlayerDetailsModal" where
  "handleStatChange v s = s\<lparr>selectedStat := v, calculatorOpen := False\<rparr>"

definition analyzeDisabled :: "PlayerDetailsModal \<Rightarrow> bool" where
  \<comment> \<open>The \<^verbatim>\<open>disabled\<close> attribute of the Analyze button.\<close>
  "analyzeDisabled s = (bookmakerLine s = [] \<or> le_zero (parseFloat (bookmakerLine s)))"

definition resultPanelShown :: "'r option \<Rightarrow> PlayerDetailsModal \<Rightarrow> bool" where
  \<comment> \<open>\<^verbatim>\<open>calculatorOpen && calculatorResult\<close>\<close>
  "resultPanelShown calculatorResult s = (calculatorOpen s \<and> calculatorResult \<noteq> None)"

subsection \<open>Recommendation styling\<close>

abbreviation (input) rec_emerald :: string where
  "rec_emerald \<equiv> ''bg-emerald-500/20 border-emerald-500/30 text-emerald-200''"
abbreviation (input) rec_red :: string where
  "rec_red \<equiv> ''bg-red-500/20 border-red-500/30 text-red-200''"
abbreviation (input) rec_amber :: string where
  "rec_amber \<equiv> ''bg-amber-500/20 border-amber-500/30 text-amber-200''"
abbreviation (input) rec_slate :: string where
  "rec_slate \<equiv> ''bg-slate-800/30 border-slate-700/50 text-slate-200''"

definition getRecommendationColor :: "string option \<Rightarrow> string option \<Rightarrow> string" where
  \<comment> \<open>An empty \<^verbatim>\<open>colorCode\<close> or \<^verbatim>\<open>advice\<close> is falsy, like an absent one.\<close>
  "getRecommendationColor advice colorCode =
     (case (if colorCode = Some [] then None else colorCode) of
        Some code \<Rightarrow>
          (let c = toLowerCase code
           in if c = ''green'' then rec_emerald
              else if c = ''red'' then rec_red
              else if c = ''amber'' \<or> c = ''yellow'' then rec_amber
              else rec_slate)
      | None \<Rightarrow>
          (case (if advice = Some [] then None else advice) of
             None \<Rightarrow> rec_slate
           | Some a \<Rightarrow>
               (let upper = toUpperCase a
                in if includes_str upper ''OVER'' then rec_emerald
                   else if includes_str upper ''UNDER'' then rec_red
                   else rec_amber)))"

subsection \<open>Head-to-head tab\<close>

datatype h2hTab = Spinner | H2HStats Averages | NoH2HHistory

definition h2hAverage :: "PlayerHistory option \<Rightarrow> Averages option" where
  \<comment> \<open>\<^verbatim>\<open>historyData?.h2h_avg || null\<close>\<close>
  "h2hAverage historyData = (case historyData of None \<Rightarrow> None | Some h \<Rightarrow> h2h_avg h)"

definition h2hTabContent :: "bool \<Rightarrow> PlayerHistory option \<Rightarrow> h2hTab" where
  "h2hTabContent historyLoading historyData =
     (if historyLoading then Spinner
      else case h2hAverage historyData of
             None \<Rightarrow> NoH2HHistory
           | Some h \<Rightarrow> if GP h > 0 then H2HStats h else NoH2HHistory)"

subsection \<open>Interactions with the player details modal\<close>

datatype detailsAction = SelectStat StatCategory | SetBookmakerLine string | ClickAnalyze

fun detailsStep :: "PlayerFullPrediction \<Rightarrow> PlayerDetailsModal \<Rightarrow> detailsAction \<Rightarrow> PlayerDetailsModal" where
  "detailsStep player s (SelectStat v) = handleStatChange v s"
| "detailsStep player s (SetBookmakerLine t) = s\<lparr>bookmakerLine := t\<rparr>"
| "detailsStep player s ClickAnalyze =
     (if analyzeDisabled s then s else handleAnalyze player s)"

definition detailsRun :: "PlayerFullPrediction \<Rightarrow> detailsAction list \<Rightarrow> PlayerDetailsModal" where
  "detailsRun player acts = foldl (detailsStep player) initialDetails acts"

definition openPanelIsCurrent :: "PlayerDetailsModal \<Rightarrow> bool" where
  \<comment> \<open>While the result panel is open, the analysis last asked for was asked for the
      category that is selected now.\<close>
  "openPanelIsCurrent s =
     (if calculatorOpen s
      then analyzeCalls s \<noteq> [] \<and> fetch_stat (last (analyzeCalls s)) = selectedStat s
      else True)"


definition commaFree :: "string \<Rightarrow> bool" where
  \<comment> \<open>A non-empty text without a comma, as the decimal form of every id is.\<close>
  "commaFree x = (x \<noteq> [] \<and> CHR '','' \<notin> set x)"


definition tightKeyword :: "string \<Rightarrow> bool" where
  \<comment> \<open>The first test of \<^verbatim>\<open>getConfidenceBadgeColor\<close> on the lower-cased label.\<close>
  "tightKeyword lower =
     (includes_str lower (''ind'' @ [e_acute] @ ''cis'') \<or> includes_str lower ''tight''
      \<or> includes_str lower (''serr'' @ [e_acute]))"


text \<open>
  The target line is typed into an \<^verbatim>\<open><Input type="number">\<close>, and \<^verbatim>\<open>setBookmakerLine\<close> is
  called with the value of that element only. Such a value is the empty string or a
  valid floating-point number in the sense of the HTML standard: an optional minus sign,
  digits with an optional fraction or a fraction alone, and an optional exponent.
\<close>

definition validExponentPart :: "string \<Rightarrow> bool" where
  \<comment> \<open>Nothing, or \<^verbatim>\<open>e\<close> or \<^verbatim>\<open>E\<close>, an optional sign and one or more digits up to the end.\<close>
  "validExponentPart r =
     (case r of
        [] \<Rightarrow> True
      | c # r1 \<Rightarrow>
          (c = CHR ''e'' \<or> c = CHR ''E'')
          \<and> (let ds = (case r1 of
                         [] \<Rightarrow> []
                       | d # r2 \<Rightarrow> if d = CHR ''-'' \<or> d = CHR ''+'' then r2 else r1)
             in ds \<noteq> [] \<and> list_all isDecimalDigit ds))"

definition validFloatingPointNumber :: "string \<Rightarrow> bool" where
  "validFloatingPointNumber t =
     (let unsigned = (if startsWith t ''-'' then tl t else t);
          intPart = takeWhile isDecimalDigit unsigned;
          rest1 = dropWhile isDecimalDigit unsigned;
          hasDot = startsWith rest1 ''.'';
          fracPart = (if hasDot then takeWhile isDecimalDigit (tl rest1) else []);
          rest2 = (if hasDot then dropWhile isDecimalDigit (tl rest1) else rest1)
      in (intPart \<noteq> [] \<or> hasDot) \<and> (if hasDot then fracPart \<noteq> [] else True)
         \<and> validExponentPart rest2)"

definition numberInputValue :: "string \<Rightarrow> bool" where
  \<comment> \<open>The texts \<^verbatim>\<open>bookmakerLine\<close> can hold.\<close>
  "numberInputValue t = (t = [] \<or> validFloatingPointNumber t)"


section \<open>Absence selection: no duplicate ids\<close>

lemma find_id_None: "(find (\<lambda>p. id' p = i) ps = None) = (i \<notin> id' ` set ps)"
  by (auto simp: find_None_iff)

lemma step_distinctIds: "distinctIds s \<Longrightarrow> distinctIds (step s a)"
  by (cases a)
     (auto simp: distinctIds_def addHomeMissingPlayer_def addAwayMissingPlayer_def
        removeHomeMissingPlayer_def removeAwayMissingPlayer_def handleLogoError_def
        find_id_None distinct_map_filter Let_def)

lemma foldl_step_distinctIds: "distinctIds s \<Longrightarrow> distinctIds (foldl step s acts)"
  by (induction acts arbitrary: s) (simp_all add: step_distinctIds)

lemma run_distinctIds: "distinctIds (run acts)"
  unfolding run_def by (rule foldl_step_distinctIds) (simp add: distinctIds_def initialState_def)

text \<open>
  Claim C5. Whatever sequence of interactions the modal has gone through since it was
  mounted, neither absence list holds two players with the same id. Adding a player whose
  id is already in a side's list leaves that list as it is; adding a player whose id is
  not in it appends the player at the end.
\<close>

theorem absence_lists_have_no_duplicate_ids:
  "distinct (map id' (homeMissingPlayers (run acts)))
   \<and> distinct (map id' (awayMissingPlayers (run acts)))
   \<and> (id' p \<in> id' ` set (homeMissingPlayers s) \<longrightarrow>
        homeMissingPlayers (addHomeMissingPlayer p s) = homeMissingPlayers s)
   \<and> (id' p \<notin> id' ` set (homeMissingPlayers s) \<longrightarrow>
        homeMissingPlayers (addHomeMissingPlayer p s) = homeMissingPlayers s @ [p])
   \<and> (id' p \<in> id' ` set (awayMissingPlayers s) \<longrightarrow>
        awayMissingPlayers (addAwayMissingPlayer p s) = awayMissingPlayers s)
   \<and> (id' p \<notin> id' ` set (awayMissingPlayers s) \<longrightarrow>
        awayMissingPlayers (addAwayMissingPlayer p s) = awayMissingPlayers s @ [p])"
  using run_distinctIds [of acts]
  by (simp add: distinctIds_def addHomeMissingPlayer_def addAwayMissingPlayer_def find_id_None)

theorem absence_lists_have_no_duplicate_ids_witness:
  "homeMissingPlayers (run [AddHome \<lparr>id' = 23, full_name = ''LeBron James''\<rparr>,
                            AddHome \<lparr>id' = 3, full_name = ''Anthony Davis''\<rparr>,
                            AddHome \<lparr>id' = 23, full_name = ''LeBron James''\<rparr>,
                            RemoveHome 3,
                            AddAway \<lparr>id' = 0, full_name = ''Jayson Tatum''\<rparr>])
     = [\<lparr>id' = 23, full_name = ''LeBron James''\<rparr>]
   \<and> distinct (map id' (homeMissingPlayers
         (run [AddHome \<lparr>id' = 23, full_name = ''LeBron James''\<rparr>,
               AddHome \<lparr>id' = 3, full_name = ''Anthony Davis''\<rparr>,
               AddHome \<lparr>id' = 23, full_name = ''LeBron James''\<rparr>,
               RemoveHome 3,
               AddAway \<lparr>id' = 0, full_name = ''Jayson Tatum''\<rparr>])))
   \<and> id' \<lparr>id' = 23, full_name = ''LeBron James''\<rparr>
        \<in> id' ` set (homeMissingPlayers (run [AddHome \<lparr>id' = 23, full_name = ''LeBron James''\<rparr>]))
   \<and> homeMissingPlayers (addHomeMissingPlayer \<lparr>id' = 23, full_name = ''LeBron James''\<rparr>
        (run [AddHome \<lparr>id' = 23, full_name = ''LeBron James''\<rparr>]))
      = homeMissingPlayers (run [AddHome \<lparr>id' = 23, full_name = ''LeBron James''\<rparr>])
   \<and> id' \<lparr>id' = 23, full_name = ''LeBron James''\<rparr> \<notin> id' ` set (awayMissingPlayers initialState)
   \<and> awayMissingPlayers (addAwayMissingPlayer \<lparr>id' = 23, full_name = ''LeBron James''\<rparr> initialState)
      = awayMissingPlayers initialState @ [\<lparr>id' = 23, full_name = ''LeBron James''\<rparr>]"
  using absence_lists_have_no_duplicate_ids
          [of "[AddHome \<lparr>id' = 23, full_name = ''LeBron James''\<rparr>,
                AddHome \<lparr>id' = 3, full_name = ''Anthony Davis''\<rparr>,
                AddHome \<lparr>id' = 23, full_name = ''LeBron James''\<rparr>,
                RemoveHome 3,
                AddAway \<lparr>id' = 0, full_name = ''Jayson Tatum''\<rparr>]"
              "\<lparr>id' = 23, full_name = ''LeBron James''\<rparr>"
              "run [AddHome \<lparr>id' = 23, full_name = ''LeBron James''\<rparr>]"]
        absence_lists_have_no_duplicate_ids
          [of "[]" "\<lparr>id' = 23, full_name = ''LeBron James''\<rparr>" initialState]
  by (simp add: run_def initialState_def addHomeMissingPlayer_def addAwayMissingPlayer_def
        removeHomeMissingPlayer_def)

text \<open>
  Claim C6. When the player's id is already in a side's absence list, adding the player
  changes nothing but that side's search text, which becomes empty, and that side's
  popover flag, which becomes closed: the absence lists, the other side's search text and
  popover flag, and the failed-logo set are as before.
\<close>

theorem adding_present_player_changes_only_search_and_popover:
  "(id' p \<in> id' ` set (homeMissingPlayers s) \<longrightarrow>
      addHomeMissingPlayer p s = s\<lparr>homeSearchQuery := [], homePopoverOpen := False\<rparr>)
   \<and> (id' p \<in> id' ` set (awayMissingPlayers s) \<longrightarrow>
      addAwayMissingPlayer p s = s\<lparr>awaySearchQuery := [], awayPopoverOpen := False\<rparr>)"
  by (simp add: addHomeMissingPlayer_def addAwayMissingPlayer_def find_id_None)

theorem adding_present_player_changes_only_search_and_popover_witness:
  "id' \<lparr>id' = 23, full_name = ''LeBron James''\<rparr>
     \<in> id' ` set (homeMissingPlayers
          \<lparr> homeMissingPlayers = [\<lparr>id' = 23, full_name = ''LeBron James''\<rparr>],
            awayMissingPlayers = [\<lparr>id' = 23, full_name = ''LeBron James''\<rparr>],
            homeSearchQuery = ''leb'', awaySearchQuery = ''ja'',
            homePopoverOpen = True, awayPopoverOpen = True,
            failedLogos = {''home-0022400061''} \<rparr>)
   \<and> addHomeMissingPlayer \<lparr>id' = 23, full_name = ''LeBron James''\<rparr>
          \<lparr> homeMissingPlayers = [\<lparr>id' = 23, full_name = ''LeBron James''\<rparr>],
            awayMissingPlayers = [\<lparr>id' = 23, full_name = ''LeBron James''\<rparr>],
            homeSearchQuery = ''leb'', awaySearchQuery = ''ja'',
            homePopoverOpen = True, awayPopoverOpen = True,
            failedLogos = {''home-0022400061''} \<rparr>
       = \<lparr> homeMissingPlayers = [\<lparr>id' = 23, full_name = ''LeBron James''\<rparr>],
            awayMissingPlayers = [\<lparr>id' = 23, full_name = ''LeBron James''\<rparr>],
            homeSearchQuery = [], awaySearchQuery = ''ja'',
            homePopoverOpen = False, awayPopoverOpen = True,
            failedLogos = {''home-0022400061''} \<rparr>
   \<and> addAwayMissingPlayer \<lparr>id' = 23, full_name = ''LeBron James''\<rparr>
          \<lparr> homeMissingPlayers = [\<lparr>id' = 23, full_name = ''LeBron James''\<rparr>],
            awayMissingPlayers = [\<lparr>id' = 23, full_name = ''LeBron James''\<rparr>],
            homeSearchQuery = ''leb'', awaySearchQuery = ''ja'',
            homePopoverOpen = True, awayPopoverOpen = True,
            failedLogos = {''home-0022400061''} \<rparr>
       = \<lparr> homeMissingPlayers = [\<lparr>id' = 23, full_name = ''LeBron James''\<rparr>],
            awayMissingPlayers = [\<lparr>id' = 23, full_name = ''LeBron James''\<rparr>],
            homeSearchQuery = ''leb'', awaySearchQuery = [],
            homePopoverOpen = True, awayPopoverOpen = False,
            failedLogos = {''home-0022400061''} \<rparr>"
  using adding_present_player_changes_only_search_and_popover
          [of "\<lparr>id' = 23, full_name = ''LeBron James''\<rparr>"
              "\<lparr> homeMissingPlayers = [\<lparr>id' = 23, full_name = ''LeBron James''\<rparr>],
                 awayMissingPlayers = [\<lparr>id' = 23, full_name = ''LeBron James''\<rparr>],
                 homeSearchQuery = ''leb'', awaySearchQuery = ''ja'',
                 homePopoverOpen = True, awayPopoverOpen = True,
                 failedLogos = {''home-0022400061''} \<rparr>"]
  by simp

section \<open>The match-prediction query key\<close>

lemma of_char_digitChar: "d < 10 \<Longrightarrow> (of_char (digitChar d) :: nat) = 48 + d"
  by (simp add: digitChar_def)

lemma digitsValue_snoc:
  "digitsValue (ds @ [c]) = 10 * digitsValue ds + ((of_char c :: nat) - 48)"
  by (simp add: digitsValue_def)

lemma digitsValue_single: "digitsValue [c] = (of_char c :: nat) - 48"
  by (simp add: digitsValue_def)

lemma digitsValue_decimalDigits: "digitsValue (decimalDigits n) = n"
proof (induction n rule: decimalDigits.induct)
  case (1 n)
  show ?case
  proof (cases "n < 10")
    case True
    then show ?thesis
      by (subst decimalDigits.simps) (simp add: digitsValue_single of_char_digitChar)
  next
    case False
    with 1 have "digitsValue (decimalDigits (n div 10)) = n div 10" by simp
    with False show ?thesis
      by (subst decimalDigits.simps) (simp add: digitsValue_snoc of_char_digitChar)
  qed
qed

lemma decimalDigits_inj: "decimalDigits m = decimalDigits n \<Longrightarrow> m = n"
  by (metis digitsValue_decimalDigits)

lemma isDecimalDigit_digitChar: "d < 10 \<Longrightarrow> isDecimalDigit (digitChar d)"
  by (simp add: isDecimalDigit_def of_char_digitChar)

lemma decimalDigits_all_digits: "c \<in> set (decimalDigits n) \<Longrightarrow> isDecimalDigit c"
proof (induction n rule: decimalDigits.induct)
  case (1 n)
  from "1.prems" show ?case
    by (subst (asm) decimalDigits.simps)
       (auto simp: isDecimalDigit_digitChar "1.IH" split: if_splits)
qed

lemma decimalDigits_not_Nil: "decimalDigits n \<noteq> []"
  by (subst decimalDigits.simps) simp

lemma minus_not_digit: "\<not> isDecimalDigit CHR ''-''"
  by (simp add: isDecimalDigit_def)

lemma comma_not_digit: "\<not> isDecimalDigit CHR '',''"
  by (simp add: isDecimalDigit_def)

lemma numberToString_not_Nil: "numberToString i \<noteq> []"
  by (simp add: numberToString_def decimalDigits_not_Nil)

lemma numberToString_no_comma: "CHR '','' \<notin> set (numberToString i)"
  using decimalDigits_all_digits comma_not_digit
  by (auto simp: numberToString_def)

lemma decimalDigits_no_minus_head: "decimalDigits n \<noteq> CHR ''-'' # cs"
  using decimalDigits_all_digits [of "CHR ''-''" n] minus_not_digit by auto

lemma numberToString_inj: "numberToString i = numberToString j \<Longrightarrow> i = j"
proof -
  assume eq: "numberToString i = numberToString j"
  consider "i < 0" "j < 0" | "i < 0" "\<not> j < 0" | "\<not> i < 0" "j < 0" | "\<not> i < 0" "\<not> j < 0"
    by blast
  then show ?thesis
  proof cases
    case 1
    with eq have "nat (- i) = nat (- j)" by (simp add: numberToString_def decimalDigits_inj)
    with 1 show ?thesis by simp
  next
    case 2
    with eq have "decimalDigits (nat j) = CHR ''-'' # decimalDigits (nat (- i))"
      by (simp add: numberToString_def)
    then show ?thesis using decimalDigits_no_minus_head by blast
  next
    case 3
    with eq have "decimalDigits (nat i) = CHR ''-'' # decimalDigits (nat (- j))"
      by (simp add: numberToString_def)
    then show ?thesis using decimalDigits_no_minus_head by blast
  next
    case 4
    with eq have "nat i = nat j" by (simp add: numberToString_def decimalDigits_inj)
    with 4 show ?thesis by simp
  qed
qed

lemma takeWhile_up_to_comma:
  "CHR '','' \<notin> set x \<Longrightarrow> takeWhile (\<lambda>c. c \<noteq> CHR '','') (x @ CHR '','' # r) = x"
  by (induction x) auto

lemma dropWhile_up_to_comma:
  "CHR '','' \<notin> set x \<Longrightarrow> dropWhile (\<lambda>c. c \<noteq> CHR '','') (x @ CHR '','' # r) = CHR '','' # r"
  by (induction x) auto

lemma takeWhile_join:
  "commaFree x \<Longrightarrow> takeWhile (\<lambda>c. c \<noteq> CHR '','') (join (x # xs) '','') = x"
  by (cases xs) (auto simp: commaFree_def takeWhile_up_to_comma)

lemma dropWhile_join:
  "commaFree x \<Longrightarrow> dropWhile (\<lambda>c. c \<noteq> CHR '','') (join (x # xs) '','')
     = (if xs = [] then [] else CHR '','' # join xs '','')"
  by (cases xs) (auto simp: commaFree_def dropWhile_up_to_comma)

lemma join_not_Nil: "commaFree x \<Longrightarrow> join (x # xs) '','' \<noteq> []"
  by (cases xs) (auto simp: commaFree_def)

lemma join_inj:
  "list_all commaFree xs \<Longrightarrow> list_all commaFree ys \<Longrightarrow> join xs '','' = join ys '','' \<Longrightarrow> xs = ys"
proof (induction xs arbitrary: ys)
  case Nil
  show ?case
  proof (cases ys)
    case Nil
    then show ?thesis by simp
  next
    case (Cons y ys')
    with Nil.prems have "commaFree y" "join (y # ys') '','' = []" by simp_all
    then show ?thesis using join_not_Nil by blast
  qed
next
  case (Cons x xs)
  show ?case
  proof (cases ys)
    case Nil
    with Cons.prems show ?thesis using join_not_Nil [of x xs] by simp
  next
    case (Cons y ys')
    with Cons.prems have cf: "commaFree x" "commaFree y" "list_all commaFree xs" "list_all commaFree ys'"
      by simp_all
    from Cons.prems(3) Cons have eq: "join (x # xs) '','' = join (y # ys') '',''" by simp
    from eq cf have "x = y"
      by (metis takeWhile_join)
    from eq cf have d: "(if xs = [] then [] else CHR '','' # join xs '','')
        = (if ys' = [] then [] else CHR '','' # join ys' '','')"
      by (metis dropWhile_join)
    have "xs = ys'"
    proof (cases "xs = []")
      case True
      with d show ?thesis by (auto split: if_splits)
    next
      case False
      with d have "ys' \<noteq> []" "join xs '','' = join ys' '',''" by (auto split: if_splits)
      with cf Cons.IH show ?thesis by blast
    qed
    with \<open>x = y\<close> Cons show ?thesis by simp
  qed
qed

lemma ids_commaFree: "list_all commaFree (map numberToString is)"
  by (simp add: list_all_iff commaFree_def numberToString_not_Nil numberToString_no_comma)

lemma join_ids_inj:
  "join (map numberToString is) '','' = join (map numberToString js) '','' \<Longrightarrow> is = js"
proof -
  assume "join (map numberToString is) '','' = join (map numberToString js) '',''"
  then have "map numberToString is = map numberToString js"
    using join_inj ids_commaFree by blast
  moreover have "inj numberToString"
    using numberToString_inj by (auto simp: inj_on_def)
  ultimately show ?thesis by (simp add: inj_map_eq_map)
qed

text \<open>
  Claim C3, as the code has it. The two id components of the query key are the ids of the
  side's absence list in the order in which the players were added, joined by commas.
  For given team codes, two states have the same key exactly when their absence lists
  carry the same ids in the same order on each side; and when both lists are empty both
  components are the empty string.
\<close>

theorem query_key_follows_insertion_order:
  "(queryKey h a s = queryKey h a s' \<longleftrightarrow>
      map id' (homeMissingPlayers s) = map id' (homeMissingPlayers s')
      \<and> map id' (awayMissingPlayers s) = map id' (awayMissingPlayers s'))
   \<and> (homeMissingPlayers s = [] \<and> awayMissingPlayers s = [] \<longrightarrow>
        queryKey h a s = [''match-prediction'', h, a, [], []])"
  using join_ids_inj by (auto simp: queryKey_def simp del: map_map)

theorem query_key_follows_insertion_order_witness:
  "map id' (homeMissingPlayers (run [AddHome \<lparr>id' = 1, full_name = ''A''\<rparr>, AddAway \<lparr>id' = 7, full_name = ''C''\<rparr>]))
     = map id' (homeMissingPlayers (run [AddAway \<lparr>id' = 7, full_name = ''C''\<rparr>, AddHome \<lparr>id' = 1, full_name = ''A''\<rparr>]))
   \<and> map id' (awayMissingPlayers (run [AddHome \<lparr>id' = 1, full_name = ''A''\<rparr>, AddAway \<lparr>id' = 7, full_name = ''C''\<rparr>]))
     = map id' (awayMissingPlayers (run [AddAway \<lparr>id' = 7, full_name = ''C''\<rparr>, AddHome \<lparr>id' = 1, full_name = ''A''\<rparr>]))
   \<and> queryKey ''LAL'' ''BOS'' (run [AddHome \<lparr>id' = 1, full_name = ''A''\<rparr>, AddAway \<lparr>id' = 7, full_name = ''C''\<rparr>])
     = queryKey ''LAL'' ''BOS'' (run [AddAway \<lparr>id' = 7, full_name = ''C''\<rparr>, AddHome \<lparr>id' = 1, full_name = ''A''\<rparr>])
   \<and> homeMissingPlayers initialState = [] \<and> awayMissingPlayers initialState = []
   \<and> queryKey ''LAL'' ''BOS'' initialState = [''match-prediction'', ''LAL'', ''BOS'', [], []]"
  using query_key_follows_insertion_order
          [of "''LAL''" "''BOS''"
              "run [AddHome \<lparr>id' = 1, full_name = ''A''\<rparr>, AddAway \<lparr>id' = 7, full_name = ''C''\<rparr>]"
              "run [AddAway \<lparr>id' = 7, full_name = ''C''\<rparr>, AddHome \<lparr>id' = 1, full_name = ''A''\<rparr>]"]
        query_key_follows_insertion_order [of "''LAL''" "''BOS''" initialState initialState]
  by (simp add: run_def initialState_def addHomeMissingPlayer_def addAwayMissingPlayer_def)

text \<open>
  Adding players 1 and 2 on the home side in the two possible orders gives the same set
  of ids and two different keys: the key is not independent of the order.
\<close>

theorem query_key_order_counterexample:
  "set (map id' (homeMissingPlayers (run [AddHome \<lparr>id' = 1, full_name = ''A''\<rparr>, AddHome \<lparr>id' = 2, full_name = ''B''\<rparr>])))
     = set (map id' (homeMissingPlayers (run [AddHome \<lparr>id' = 2, full_name = ''B''\<rparr>, AddHome \<lparr>id' = 1, full_name = ''A''\<rparr>])))
   \<and> set (map id' (awayMissingPlayers (run [AddHome \<lparr>id' = 1, full_name = ''A''\<rparr>, AddHome \<lparr>id' = 2, full_name = ''B''\<rparr>])))
     = set (map id' (awayMissingPlayers (run [AddHome \<lparr>id' = 2, full_name = ''B''\<rparr>, AddHome \<lparr>id' = 1, full_name = ''A''\<rparr>])))
   \<and> queryKey ''LAL'' ''BOS'' (run [AddHome \<lparr>id' = 1, full_name = ''A''\<rparr>, AddHome \<lparr>id' = 2, full_name = ''B''\<rparr>])
       = [''match-prediction'', ''LAL'', ''BOS'', ''1,2'', '''']
   \<and> queryKey ''LAL'' ''BOS'' (run [AddHome \<lparr>id' = 2, full_name = ''B''\<rparr>, AddHome \<lparr>id' = 1, full_name = ''A''\<rparr>])
       = [''match-prediction'', ''LAL'', ''BOS'', ''2,1'', '''']"
  by code_simp

section \<open>Win-probability display\<close>

subsection \<open>Rounding to a double\<close>















subsection \<open>The two bars and their badges\<close>


















section \<open>Confidence badge colour\<close>

lemma toLowerCase_Nil_iff: "(toLowerCase l = []) = (l = [])"
  by (simp add: toLowerCase_def)

lemma startsWith_append: "startsWith s (k @ k') \<Longrightarrow> startsWith s k"
  by (induction s k rule: startsWith.induct) auto

lemma includes_str_append: "includes_str s (k @ k') \<Longrightarrow> includes_str s k"
  by (induction s) (auto dest: startsWith_append)

lemma includes_solide: "includes_str s ''solide'' \<Longrightarrow> includes_str s ''solid''"
  using includes_str_append [of s "''solid''" "''e''"] by simp

lemma confidence_color_nonempty:
  "l \<noteq> [] \<Longrightarrow> getConfidenceBadgeColor (Some l) =
     (if tightKeyword (toLowerCase l) then badge_amber
      else if includes_str (toLowerCase l) ''solid'' then badge_emerald
      else if includes_str (toLowerCase l) ''blowout'' then badge_red
      else badge_blue)"
  using includes_solide [of "toLowerCase l"]
  by (auto simp: getConfidenceBadgeColor_def tightKeyword_def Let_def)

lemma confidence_color_case_insensitive:
  "toLowerCase a = toLowerCase b \<Longrightarrow>
     getConfidenceBadgeColor (Some a) = getConfidenceBadgeColor (Some b)"
proof -
  assume eq: "toLowerCase a = toLowerCase b"
  then have "(a = []) = (b = [])" by (metis toLowerCase_Nil_iff)
  with eq show ?thesis by (simp add: getConfidenceBadgeColor_def)
qed

lemma confidence_examples:
  "getConfidenceBadgeColor (Some ''Blowout'') = badge_red"
  "getConfidenceBadgeColor (Some ''BLOWOUT'') = badge_red"
  "getConfidenceBadgeColor (Some ''blowout risk'') = badge_red"
  by code_simp+

text \<open>
  Claim C2, as the code has it. The badge colour depends on the label only through its
  lower-cased form, so labels that differ in case get the same colour; \<^verbatim>\<open>Blowout\<close>,
  \<^verbatim>\<open>BLOWOUT\<close> and \<^verbatim>\<open>blowout risk\<close> are all red. For a non-empty label the colour is amber
  exactly when the lower-cased label contains \<^verbatim>\<open>tight\<close> or one of the French words
  \<^verbatim>\<open>indecis\<close>, \<^verbatim>\<open>serre\<close> (with e-acute); otherwise green exactly when it contains \<^verbatim>\<open>solid\<close>
  (which the French \<^verbatim>\<open>solide\<close> does); otherwise red exactly when it contains the one
  keyword \<^verbatim>\<open>blowout\<close>; otherwise blue. An absent or empty label is gray.
\<close>

theorem confidence_bucketing:
  "(toLowerCase a = toLowerCase b \<longrightarrow>
      getConfidenceBadgeColor (Some a) = getConfidenceBadgeColor (Some b))
   \<and> getConfidenceBadgeColor (Some ''Blowout'') = badge_red
   \<and> getConfidenceBadgeColor (Some ''BLOWOUT'') = badge_red
   \<and> getConfidenceBadgeColor (Some ''blowout risk'') = badge_red
   \<and> (l \<noteq> [] \<longrightarrow>
        (getConfidenceBadgeColor (Some l) = badge_amber \<longleftrightarrow> tightKeyword (toLowerCase l))
      \<and> (getConfidenceBadgeColor (Some l) = badge_emerald \<longleftrightarrow>
           \<not> tightKeyword (toLowerCase l) \<and> includes_str (toLowerCase l) ''solid'')
      \<and> (getConfidenceBadgeColor (Some l) = badge_red \<longleftrightarrow>
           \<not> tightKeyword (toLowerCase l) \<and> \<not> includes_str (toLowerCase l) ''solid''
           \<and> includes_str (toLowerCase l) ''blowout'')
      \<and> (getConfidenceBadgeColor (Some l) = badge_blue \<longleftrightarrow>
           \<not> tightKeyword (toLowerCase l) \<and> \<not> includes_str (toLowerCase l) ''solid''
           \<and> \<not> includes_str (toLowerCase l) ''blowout''))
   \<and> getConfidenceBadgeColor None = badge_gray
   \<and> getConfidenceBadgeColor (Some []) = badge_gray"
proof -
  have "l \<noteq> [] \<Longrightarrow> ?thesis"
    using confidence_color_case_insensitive [of a b] confidence_examples
    by (simp add: confidence_color_nonempty) (simp add: getConfidenceBadgeColor_def)
  moreover have "l = [] \<Longrightarrow> ?thesis"
    using confidence_color_case_insensitive [of a b] confidence_examples
    by (simp add: getConfidenceBadgeColor_def)
  ultimately show ?thesis by blast
qed

theorem confidence_bucketing_witness:
  "toLowerCase ''Blowout'' = toLowerCase ''BLOWOUT''
   \<and> getConfidenceBadgeColor (Some ''Blowout'') = getConfidenceBadgeColor (Some ''BLOWOUT'')
   \<and> ''Solide'' \<noteq> []
   \<and> \<not> tightKeyword (toLowerCase ''Solide'')
   \<and> includes_str (toLowerCase ''Solide'') ''solid''
   \<and> getConfidenceBadgeColor (Some ''Solide'')
       = ''bg-emerald-500/20 text-emerald-400 border-emerald-500/30''"
proof -
  have 1: "toLowerCase ''Blowout'' = toLowerCase ''BLOWOUT''" by code_simp
  have 2: "\<not> tightKeyword (toLowerCase ''Solide'')" by code_simp
  have 3: "includes_str (toLowerCase ''Solide'') ''solid''" by code_simp
  show ?thesis
    using confidence_bucketing [of "''Blowout''" "''BLOWOUT''" "''Solide''"] 1 2 3
    by simp
qed

text \<open>
  The empty label matches no keyword and is gray, not blue. A French label for a
  blowout that has no \<^verbatim>\<open>blowout\<close> in it (here \<^verbatim>\<open>Deroute\<close>, with e-acute) is blue, not red:
  the red bucket has no keyword besides the English one.
\<close>

theorem confidence_bucketing_counterexample:
  "getConfidenceBadgeColor (Some '''') = ''bg-gray-500/20 text-gray-400 border-gray-500/30''
   \<and> getConfidenceBadgeColor (Some '''') \<noteq> ''bg-blue-500/20 text-blue-400 border-blue-500/30''
   \<and> getConfidenceBadgeColor (Some (''D'' @ [char_of (233 :: nat)] @ ''route''))
        = ''bg-blue-500/20 text-blue-400 border-blue-500/30''"
  by code_simp

section \<open>Recommendation styling: colour code first, advice second\<close>

lemma recommendation_color_code:
  "code \<noteq> [] \<Longrightarrow> getRecommendationColor advice (Some code) =
     (if toLowerCase code = ''green'' then rec_emerald
      else if toLowerCase code = ''red'' then rec_red
      else if toLowerCase code = ''amber'' \<or> toLowerCase code = ''yellow'' then rec_amber
      else rec_slate)"
  by (simp add: getRecommendationColor_def Let_def)

lemma recommendation_no_code:
  "colorCode = None \<or> colorCode = Some [] \<Longrightarrow> getRecommendationColor advice colorCode =
     (case advice of
        None \<Rightarrow> rec_slate
      | Some a \<Rightarrow>
          if a = [] then rec_slate
          else if includes_str (toUpperCase a) ''OVER'' then rec_emerald
          else if includes_str (toUpperCase a) ''UNDER'' then rec_red
          else rec_amber)"
  by (auto simp: getRecommendationColor_def Let_def split: option.splits)

text \<open>
  Claim C7. A colour code that is present decides the styling whatever the advice says:
  compared in lower case, \<^verbatim>\<open>green\<close> gives the emerald styling, \<^verbatim>\<open>red\<close> the red one,
  \<^verbatim>\<open>amber\<close> and \<^verbatim>\<open>yellow\<close> the amber one, and any other code the neutral slate one.
  Without a colour code, an advice whose upper-cased text contains \<^verbatim>\<open>OVER\<close> is emerald,
  one that contains \<^verbatim>\<open>UNDER\<close> and not \<^verbatim>\<open>OVER\<close> is red, any other non-empty advice is
  amber, and a missing or empty advice is slate.
\<close>

theorem recommendation_styling:
  "(toLowerCase code = ''green'' \<longrightarrow> getRecommendationColor advice (Some code) = rec_emerald)
   \<and> (toLowerCase code = ''red'' \<longrightarrow> getRecommendationColor advice (Some code) = rec_red)
   \<and> (toLowerCase code = ''amber'' \<or> toLowerCase code = ''yellow'' \<longrightarrow>
        getRecommendationColor advice (Some code) = rec_amber)
   \<and> (code \<noteq> [] \<and> toLowerCase code \<notin> {''green'', ''red'', ''amber'', ''yellow''} \<longrightarrow>
        getRecommendationColor advice (Some code) = rec_slate)
   \<and> ((colorCode = None \<or> colorCode = Some []) \<and> includes_str (toUpperCase a) ''OVER'' \<longrightarrow>
        getRecommendationColor (Some a) colorCode = rec_emerald)
   \<and> ((colorCode = None \<or> colorCode = Some []) \<and> \<not> includes_str (toUpperCase a) ''OVER''
        \<and> includes_str (toUpperCase a) ''UNDER'' \<longrightarrow>
        getRecommendationColor (Some a) colorCode = rec_red)
   \<and> ((colorCode = None \<or> colorCode = Some []) \<and> a \<noteq> []
        \<and> \<not> includes_str (toUpperCase a) ''OVER'' \<and> \<not> includes_str (toUpperCase a) ''UNDER'' \<longrightarrow>
        getRecommendationColor (Some a) colorCode = rec_amber)
   \<and> ((colorCode = None \<or> colorCode = Some []) \<and> (advice = None \<or> advice = Some []) \<longrightarrow>
        getRecommendationColor advice colorCode = rec_slate)"
proof -
  have nonempty: "toLowerCase code \<noteq> [] \<Longrightarrow> code \<noteq> []"
    by (simp add: toLowerCase_Nil_iff)
  have over_nonempty: "includes_str (toUpperCase a) k \<Longrightarrow> k \<noteq> [] \<Longrightarrow> a \<noteq> []" for k
    by (auto simp: toUpperCase_def)
  have A: "getRecommendationColor advice (Some code) =
     (if code = [] then getRecommendationColor advice (Some [])
      else if toLowerCase code = ''green'' then rec_emerald
      else if toLowerCase code = ''red'' then rec_red
      else if toLowerCase code = ''amber'' \<or> toLowerCase code = ''yellow'' then rec_amber
      else rec_slate)"
    using recommendation_color_code [of code advice] by simp
  have B: "colorCode = None \<or> colorCode = Some [] \<Longrightarrow> getRecommendationColor (Some a) colorCode =
     (if a = [] then rec_slate
      else if includes_str (toUpperCase a) ''OVER'' then rec_emerald
      else if includes_str (toUpperCase a) ''UNDER'' then rec_red
      else rec_amber)"
    using recommendation_no_code [of colorCode "Some a"] by simp
  have C: "(colorCode = None \<or> colorCode = Some []) \<Longrightarrow> (advice = None \<or> advice = Some []) \<Longrightarrow>
        getRecommendationColor advice colorCode = rec_slate"
    using recommendation_no_code [of colorCode advice] by auto
  have 1: "toLowerCase code = ''green'' \<longrightarrow> getRecommendationColor advice (Some code) = rec_emerald"
    using nonempty by (auto simp: A)
  have 2: "toLowerCase code = ''red'' \<longrightarrow> getRecommendationColor advice (Some code) = rec_red"
    using nonempty by (auto simp: A)
  have 3: "toLowerCase code = ''amber'' \<or> toLowerCase code = ''yellow'' \<longrightarrow>
        getRecommendationColor advice (Some code) = rec_amber"
    using nonempty by (auto simp: A)
  have 4: "code \<noteq> [] \<and> toLowerCase code \<notin> {''green'', ''red'', ''amber'', ''yellow''} \<longrightarrow>
        getRecommendationColor advice (Some code) = rec_slate"
    by (simp add: A)
  have 5: "(colorCode = None \<or> colorCode = Some []) \<and> includes_str (toUpperCase a) ''OVER'' \<longrightarrow>
        getRecommendationColor (Some a) colorCode = rec_emerald"
    using over_nonempty [of "''OVER''"] by (auto simp: B)
  have 6: "(colorCode = None \<or> colorCode = Some []) \<and> \<not> includes_str (toUpperCase a) ''OVER''
        \<and> includes_str (toUpperCase a) ''UNDER'' \<longrightarrow>
        getRecommendationColor (Some a) colorCode = rec_red"
    using over_nonempty [of "''UNDER''"] by (auto simp: B)
  have 7: "(colorCode = None \<or> colorCode = Some []) \<and> a \<noteq> []
        \<and> \<not> includes_str (toUpperCase a) ''OVER'' \<and> \<not> includes_str (toUpperCase a) ''UNDER'' \<longrightarrow>
        getRecommendationColor (Some a) colorCode = rec_amber"
    by (auto simp: B)
  from 1 2 3 4 5 6 7 C show ?thesis by blast
qed

theorem recommendation_styling_witness:
  "toLowerCase ''GREEN'' = ''green''
   \<and> getRecommendationColor (Some ''Strong UNDER'') (Some ''GREEN'')
       = ''bg-emerald-500/20 border-emerald-500/30 text-emerald-200''
   \<and> toLowerCase ''Red'' = ''red''
   \<and> getRecommendationColor (Some ''Strong OVER'') (Some ''Red'')
       = ''bg-red-500/20 border-red-500/30 text-red-200''
   \<and> toLowerCase ''yellow'' = ''yellow''
   \<and> getRecommendationColor None (Some ''yellow'')
       = ''bg-amber-500/20 border-amber-500/30 text-amber-200''
   \<and> toLowerCase ''blue'' \<notin> {''green'', ''red'', ''amber'', ''yellow''}
   \<and> getRecommendationColor (Some ''Strong OVER'') (Some ''blue'')
       = ''bg-slate-800/30 border-slate-700/50 text-slate-200''
   \<and> includes_str (toUpperCase ''Lean Over 22.5'') ''OVER''
   \<and> getRecommendationColor (Some ''Lean Over 22.5'') None
       = ''bg-emerald-500/20 border-emerald-500/30 text-emerald-200''
   \<and> \<not> includes_str (toUpperCase ''under'') ''OVER''
   \<and> includes_str (toUpperCase ''under'') ''UNDER''
   \<and> getRecommendationColor (Some ''under'') (Some [])
       = ''bg-red-500/20 border-red-500/30 text-red-200''
   \<and> \<not> includes_str (toUpperCase ''Pass'') ''OVER''
   \<and> \<not> includes_str (toUpperCase ''Pass'') ''UNDER''
   \<and> getRecommendationColor (Some ''Pass'') None
       = ''bg-amber-500/20 border-amber-500/30 text-amber-200''
   \<and> getRecommendationColor None None
       = ''bg-slate-800/30 border-slate-700/50 text-slate-200''"
proof -
  have 1: "toLowerCase ''GREEN'' = ''green''" by code_simp
  have 2: "toLowerCase ''Red'' = ''red''" by code_simp
  have 3: "toLowerCase ''yellow'' = ''yellow''" by code_simp
  have 4: "toLowerCase ''blue'' = ''blue''" by code_simp
  have 5: "includes_str (toUpperCase ''Lean Over 22.5'') ''OVER''" by code_simp
  have 6: "\<not> includes_str (toUpperCase ''under'') ''OVER''" by code_simp
  have 7: "includes_str (toUpperCase ''under'') ''UNDER''" by code_simp
  have 8: "\<not> includes_str (toUpperCase ''Pass'') ''OVER''" by code_simp
  have 9: "\<not> includes_str (toUpperCase ''Pass'') ''UNDER''" by code_simp
  show ?thesis
    using recommendation_styling [of "''GREEN''" "Some ''Strong UNDER''" None "''Lean Over 22.5''"]
      recommendation_styling [of "''Red''" "Some ''Strong OVER''" "Some []" "''under''"]
      recommendation_styling [of "''yellow''" None None "''Pass''"]
      recommendation_styling [of "''blue''" "Some ''Strong OVER''" None "''Pass''"]
      recommendation_styling [of "''blue''" None None "''Pass''"]
      1 2 3 4 5 6 7 8 9
    by simp
qed

section \<open>The Analyze action\<close>

lemma parseFloat_Nil: "parseFloat [] = NaN"
  by (simp add: parseFloat_def)

lemma gt_zero_not_le_zero: "gt_zero n \<Longrightarrow> \<not> le_zero n"
  by (cases n) auto

lemma le_zero_not_gt_zero: "le_zero n \<Longrightarrow> \<not> gt_zero n"
  by (cases n) auto

lemma le_zero_or_gt_zero: "n \<noteq> NaN \<Longrightarrow> le_zero n \<or> gt_zero n"
  by (cases n) auto

text \<open>
  Every value a number input can hold is empty or is read by \<^verbatim>\<open>parseFloat\<close> as a number.
\<close>

lemma toNumber_not_NaN: "toNumber v \<noteq> NaN"
  by (simp add: toNumber_def)

lemma digit_not_space: "isDecimalDigit c \<Longrightarrow> \<not> isStrWhiteSpaceChar c"
  by (auto simp: isDecimalDigit_def isStrWhiteSpaceChar_def)

lemma takeWhile_digit_head:
  "takeWhile isDecimalDigit u \<noteq> [] \<Longrightarrow> \<exists>c cs. u = c # cs \<and> isDecimalDigit c"
  by (cases u) (auto split: if_splits)

lemma dot_head:
  "takeWhile isDecimalDigit u = [] \<Longrightarrow> startsWith (dropWhile isDecimalDigit u) ''.''
     \<Longrightarrow> \<exists>cs. u = CHR ''.'' # cs"
  by (cases u) (auto split: if_splits)

lemma unsigned_head:
  assumes "takeWhile isDecimalDigit u \<noteq> [] \<or> startsWith (dropWhile isDecimalDigit u) ''.''"
  shows "\<exists>c cs. u = c # cs \<and> (isDecimalDigit c \<or> c = CHR ''.'')"
proof (cases "takeWhile isDecimalDigit u = []")
  case True
  with assms dot_head [of u] show ?thesis by auto
next
  case False
  with takeWhile_digit_head [of u] show ?thesis by auto
qed

lemma parseFloat_unsigned:
  assumes "u = c # cs" "isDecimalDigit c \<or> c = CHR ''.''"
    and "t = u \<or> t = CHR ''-'' # u"
    and "takeWhile isDecimalDigit u \<noteq> []
      \<or> (startsWith (dropWhile isDecimalDigit u) ''.''
          \<and> takeWhile isDecimalDigit (tl (dropWhile isDecimalDigit u)) \<noteq> [])"
  shows "parseFloat t \<noteq> NaN"
proof -
  have c: "\<not> isStrWhiteSpaceChar c" "c \<noteq> CHR ''-''" "c \<noteq> CHR ''+''" "c \<noteq> CHR ''I''"
    using assms(2) by (auto simp: isDecimalDigit_def isStrWhiteSpaceChar_def)
  have m: "\<not> isStrWhiteSpaceChar CHR ''-''" by (simp add: isStrWhiteSpaceChar_def)
  from assms(3) show ?thesis
  proof
    assume "t = u"
    with assms(1,4) c show ?thesis
      by (auto simp: parseFloat_def Let_def toNumber_not_NaN)
  next
    assume "t = CHR ''-'' # u"
    with assms(1,4) c m show ?thesis
      by (auto simp: parseFloat_def Let_def toNumber_not_NaN)
  qed
qed

lemma valid_number_parses: "validFloatingPointNumber t \<Longrightarrow> parseFloat t \<noteq> NaN"
proof -
  assume v: "validFloatingPointNumber t"
  define u where "u = (if startsWith t ''-'' then tl t else t)"
  from v have i: "takeWhile isDecimalDigit u \<noteq> [] \<or> startsWith (dropWhile isDecimalDigit u) ''.''"
    and f: "startsWith (dropWhile isDecimalDigit u) ''.'' \<longrightarrow>
        takeWhile isDecimalDigit (tl (dropWhile isDecimalDigit u)) \<noteq> []"
    by (auto simp: validFloatingPointNumber_def Let_def u_def split: if_splits)
  from unsigned_head [OF i] obtain c cs where u: "u = c # cs"
    and c: "isDecimalDigit c \<or> c = CHR ''.''" by blast
  have t: "t = u \<or> t = CHR ''-'' # u"
    by (cases t) (auto simp: u_def)
  from i f have "takeWhile isDecimalDigit u \<noteq> []
      \<or> (startsWith (dropWhile isDecimalDigit u) ''.''
          \<and> takeWhile isDecimalDigit (tl (dropWhile isDecimalDigit u)) \<noteq> [])" by blast
  with u c t show ?thesis by (rule parseFloat_unsigned)
qed

lemma number_input_value_parses:
  "numberInputValue t \<Longrightarrow> t = [] \<or> parseFloat t \<noteq> NaN"
  by (auto simp: numberInputValue_def valid_number_parses)

text \<open>
  Claim C4. The line is the value of the number input, so it is empty (which is what
  the input holds while the text typed is not a number) or parses to a number. On every
  such line the Analyze button is enabled if and only if the line parses to a positive
  number. When the line is empty or parses to a number that is not positive, the button
  is disabled, and neither the handler nor a click issues a fetch or changes the state.
  In fact the handler issues no fetch on any line that does not parse to a positive
  number. When the line parses to a positive number, the button is enabled and Analyze
  issues one calculator fetch for the player, the current projection, the parsed line
  and the selected category, and opens the result panel.
\<close>

theorem analyze_enabled_iff_positive_line:
  "(bookmakerLine s = [] \<or> parseFloat (bookmakerLine s) \<noteq> NaN \<longrightarrow>
      (\<not> analyzeDisabled s \<longleftrightarrow> gt_zero (parseFloat (bookmakerLine s))))
   \<and> (bookmakerLine s = [] \<or> le_zero (parseFloat (bookmakerLine s)) \<longrightarrow>
      analyzeDisabled s \<and> handleAnalyze player s = s \<and> detailsStep player s ClickAnalyze = s)
   \<and> (\<not> gt_zero (parseFloat (bookmakerLine s)) \<longrightarrow>
      handleAnalyze player s = s \<and> detailsStep player s ClickAnalyze = s)
   \<and> (gt_zero (parseFloat (bookmakerLine s)) \<longrightarrow>
      \<not> analyzeDisabled s
      \<and> detailsStep player s ClickAnalyze = handleAnalyze player s
      \<and> handleAnalyze player s =
          s\<lparr>analyzeCalls := analyzeCalls s @
               [\<lparr> fetch_player_id = player_id player,
                  fetch_projection = getProjectionValue player (selectedStat s),
                  fetch_line = parseFloat (bookmakerLine s),
                  fetch_stat = selectedStat s \<rparr>],
             calculatorOpen := True\<rparr>)"
proof -
  let ?n = "parseFloat (bookmakerLine s)"
  have c1: "bookmakerLine s = [] \<or> ?n \<noteq> NaN \<longrightarrow>
      (\<not> analyzeDisabled s \<longleftrightarrow> gt_zero ?n)"
    using parseFloat_Nil gt_zero_not_le_zero [of ?n] le_zero_or_gt_zero [of ?n]
    by (auto simp: analyzeDisabled_def)
  have c2: "bookmakerLine s = [] \<or> le_zero ?n \<longrightarrow>
      analyzeDisabled s \<and> handleAnalyze player s = s \<and> detailsStep player s ClickAnalyze = s"
    using le_zero_not_gt_zero [of ?n]
    by (auto simp: analyzeDisabled_def handleAnalyze_def)
  have c3: "\<not> gt_zero ?n \<longrightarrow> handleAnalyze player s = s \<and> detailsStep player s ClickAnalyze = s"
    by (simp add: handleAnalyze_def)
  have c4: "gt_zero ?n \<longrightarrow>
      \<not> analyzeDisabled s
      \<and> detailsStep player s ClickAnalyze = handleAnalyze player s
      \<and> handleAnalyze player s =
          s\<lparr>analyzeCalls := analyzeCalls s @
               [\<lparr> fetch_player_id = player_id player,
                  fetch_projection = getProjectionValue player (selectedStat s),
                  fetch_line = parseFloat (bookmakerLine s),
                  fetch_stat = selectedStat s \<rparr>],
             calculatorOpen := True\<rparr>"
    using parseFloat_Nil gt_zero_not_le_zero [of ?n]
    by (auto simp: analyzeDisabled_def handleAnalyze_def analyzeCalculator_def)
  from c1 c2 c3 c4 show ?thesis by (intro conjI)
qed

theorem analyze_enabled_iff_positive_line_witness:
  "le_zero (parseFloat (bookmakerLine
       \<lparr>selectedStat = PTS, bookmakerLine = ''-5'', calculatorOpen = False, analyzeCalls = []\<rparr>))
   \<and> analyzeDisabled
       \<lparr>selectedStat = PTS, bookmakerLine = ''-5'', calculatorOpen = False, analyzeCalls = []\<rparr>
   \<and> handleAnalyze \<lparr>player_id = 2544, team = ''LAL'',
          predicted_stats = (\<lambda>k. None)(''PTS'' := Some (49 / 2)), advanced_PRA = 81 / 2\<rparr>
       \<lparr>selectedStat = PTS, bookmakerLine = ''-5'', calculatorOpen = False, analyzeCalls = []\<rparr>
      = \<lparr>selectedStat = PTS, bookmakerLine = ''-5'', calculatorOpen = False, analyzeCalls = []\<rparr>
   \<and> analyzeDisabled
       \<lparr>selectedStat = PTS, bookmakerLine = [], calculatorOpen = False, analyzeCalls = []\<rparr>
   \<and> gt_zero (parseFloat (bookmakerLine
       \<lparr>selectedStat = PTS, bookmakerLine = ''22.5'', calculatorOpen = False, analyzeCalls = []\<rparr>))
   \<and> \<not> analyzeDisabled
       \<lparr>selectedStat = PTS, bookmakerLine = ''22.5'', calculatorOpen = False, analyzeCalls = []\<rparr>
   \<and> handleAnalyze \<lparr>player_id = 2544, team = ''LAL'',
          predicted_stats = (\<lambda>k. None)(''PTS'' := Some (49 / 2)), advanced_PRA = 81 / 2\<rparr>
       \<lparr>selectedStat = PTS, bookmakerLine = ''22.5'', calculatorOpen = False, analyzeCalls = []\<rparr>
      = \<lparr>selectedStat = PTS, bookmakerLine = ''22.5'', calculatorOpen = True,
          analyzeCalls = [\<lparr>fetch_player_id = 2544, fetch_projection = 49 / 2,
             fetch_line = Num (45 / 2), fetch_stat = PTS\<rparr>]\<rparr>"
proof -
  have 1: "parseFloat ''-5'' = Num (- 5)"
    by (simp add: parseFloat_def isStrWhiteSpaceChar_def isDecimalDigit_def digitsValue_def
        exponentPart_def toNumber_def)
  have 2: "parseFloat ''22.5'' = Num (45 / 2)"
    by (simp add: parseFloat_def isStrWhiteSpaceChar_def isDecimalDigit_def digitsValue_def
        exponentPart_def toNumber_def)
  show ?thesis
    using analyze_enabled_iff_positive_line
            [of "\<lparr>selectedStat = PTS, bookmakerLine = ''-5'', calculatorOpen = False,
                   analyzeCalls = []\<rparr>"
                "\<lparr>player_id = 2544, team = ''LAL'',
                   predicted_stats = (\<lambda>k. None)(''PTS'' := Some (49 / 2)),
                   advanced_PRA = 81 / 2\<rparr>"]
          analyze_enabled_iff_positive_line
            [of "\<lparr>selectedStat = PTS, bookmakerLine = [], calculatorOpen = False,
                   analyzeCalls = []\<rparr>"
                "\<lparr>player_id = 2544, team = ''LAL'',
                   predicted_stats = (\<lambda>k. None)(''PTS'' := Some (49 / 2)),
                   advanced_PRA = 81 / 2\<rparr>"]
          analyze_enabled_iff_positive_line
            [of "\<lparr>selectedStat = PTS, bookmakerLine = ''22.5'', calculatorOpen = False,
                   analyzeCalls = []\<rparr>"
                "\<lparr>player_id = 2544, team = ''LAL'',
                   predicted_stats = (\<lambda>k. None)(''PTS'' := Some (49 / 2)),
                   advanced_PRA = 81 / 2\<rparr>"]
    by (simp add: 1 2 getProjectionValue_def orZero_def)
qed

text \<open>
  A text such as \<^verbatim>\<open>abc\<close> is not a value of the number input. On it \<^verbatim>\<open>parseFloat\<close> gives
  \<^verbatim>\<open>NaN\<close>, the comparison \<^verbatim>\<open>NaN <= 0\<close> in the button's \<^verbatim>\<open>disabled\<close> attribute is false, and
  the handler, which compares with \<^verbatim>\<open>> 0\<close>, still does nothing.
\<close>

lemma analyze_on_unparsable_text:
  "\<not> numberInputValue ''abc''
   \<and> parseFloat ''abc'' = NaN
   \<and> \<not> analyzeDisabled \<lparr>selectedStat = PTS, bookmakerLine = ''abc'', calculatorOpen = False,
         analyzeCalls = []\<rparr>
   \<and> handleAnalyze player \<lparr>selectedStat = PTS, bookmakerLine = ''abc'', calculatorOpen = False,
         analyzeCalls = []\<rparr>
      = \<lparr>selectedStat = PTS, bookmakerLine = ''abc'', calculatorOpen = False, analyzeCalls = []\<rparr>"
proof -
  have 1: "parseFloat ''abc'' = NaN"
    by (simp add: parseFloat_def isStrWhiteSpaceChar_def isDecimalDigit_def)
  have 2: "\<not> numberInputValue ''abc''" by code_simp
  show ?thesis by (simp add: 1 2 analyzeDisabled_def handleAnalyze_def)
qed

section \<open>Selecting a stat category\<close>

lemma detailsStep_openPanelIsCurrent:
  "openPanelIsCurrent s \<Longrightarrow> openPanelIsCurrent (detailsStep player s a)"
  by (cases a)
     (auto simp: openPanelIsCurrent_def handleStatChange_def handleAnalyze_def
        analyzeCalculator_def)

lemma foldl_openPanelIsCurrent:
  "openPanelIsCurrent s \<Longrightarrow> openPanelIsCurrent (foldl (detailsStep player) s acts)"
  by (induction acts arbitrary: s) (simp_all add: detailsStep_openPanelIsCurrent)

text \<open>
  Claim C8. Whatever the state, selecting a category makes it the selected one and closes
  the calculator panel, so no result is shown right after the change; the entered line
  and the fetches already made are untouched. Hence, in every state the modal can reach,
  an open panel belongs to an analysis that was asked for the category selected now.
\<close>

theorem stat_change_closes_result_panel:
  "selectedStat (handleStatChange v s) = v
   \<and> \<not> calculatorOpen (handleStatChange v s)
   \<and> \<not> resultPanelShown calculatorResult (handleStatChange v s)
   \<and> bookmakerLine (handleStatChange v s) = bookmakerLine s
   \<and> analyzeCalls (handleStatChange v s) = analyzeCalls s
   \<and> openPanelIsCurrent (detailsRun player acts)"
proof -
  have "openPanelIsCurrent (detailsRun player acts)"
    unfolding detailsRun_def
    by (rule foldl_openPanelIsCurrent) (simp add: openPanelIsCurrent_def initialDetails_def)
  then show ?thesis by (simp add: handleStatChange_def resultPanelShown_def)
qed

section \<open>Head-to-head tab: games played\<close>

text \<open>
  Claim C9. The head-to-head tab shows the averages only when the history has been
  fetched, carries head-to-head averages and their games-played count is above 0. With a
  count of 0 it shows the placeholder, whatever the other fields of the averages are.
\<close>

theorem h2h_tab_needs_games_played:
  "(h2hTabContent historyLoading historyData = H2HStats h \<longrightarrow>
      0 < GP h \<and> \<not> historyLoading \<and> h2hAverage historyData = Some h)
   \<and> (\<not> historyLoading \<and> h2hAverage historyData = Some h \<and> GP h = 0 \<longrightarrow>
      h2hTabContent historyLoading historyData = NoH2HHistory)
   \<and> (\<not> historyLoading \<and> h2hAverage historyData = Some h \<and> 0 < GP h \<longrightarrow>
      h2hTabContent historyLoading historyData = H2HStats h)
   \<and> (\<not> historyLoading \<and> h2hAverage historyData = None \<longrightarrow>
      h2hTabContent historyLoading historyData = NoH2HHistory)"
  by (auto simp: h2hTabContent_def split: option.splits if_splits)

theorem h2h_tab_needs_games_played_witness:
  "\<not> False
   \<and> h2hAverage (Some \<lparr>recent_form_avg = None,
         h2h_avg = Some \<lparr>GP = 0, stat_avg = (\<lambda>k. None)(''PTS'' := Some 31)\<rparr>\<rparr>)
       = Some \<lparr>GP = 0, stat_avg = (\<lambda>k. None)(''PTS'' := Some 31)\<rparr>
   \<and> GP \<lparr>GP = 0, stat_avg = (\<lambda>k. None)(''PTS'' := Some 31)\<rparr> = 0
   \<and> h2hTabContent False (Some \<lparr>recent_form_avg = None,
         h2h_avg = Some \<lparr>GP = 0, stat_avg = (\<lambda>k. None)(''PTS'' := Some 31)\<rparr>\<rparr>)
       = NoH2HHistory
   \<and> 0 < GP \<lparr>GP = 3, stat_avg = (\<lambda>k. None)(''PTS'' := Some 31)\<rparr>
   \<and> h2hTabContent False (Some \<lparr>recent_form_avg = None,
         h2h_avg = Some \<lparr>GP = 3, stat_avg = (\<lambda>k. None)(''PTS'' := Some 31)\<rparr>\<rparr>)
       = H2HStats \<lparr>GP = 3, stat_avg = (\<lambda>k. None)(''PTS'' := Some 31)\<rparr>"
  using h2h_tab_needs_games_played
          [of False "Some \<lparr>recent_form_avg = None,
                 h2h_avg = Some \<lparr>GP = 0, stat_avg = (\<lambda>k. None)(''PTS'' := Some 31)\<rparr>\<rparr>"
              "\<lparr>GP = 0, stat_avg = (\<lambda>k. None)(''PTS'' := Some 31)\<rparr>"]
        h2h_tab_needs_games_played
          [of False "Some \<lparr>recent_form_avg = None,
                 h2h_avg = Some \<lparr>GP = 3, stat_avg = (\<lambda>k. None)(''PTS'' := Some 31)\<rparr>\<rparr>"
              "\<lparr>GP = 3, stat_avg = (\<lambda>k. None)(''PTS'' := Some 31)\<rparr>"]
  by (simp add: h2hAverage_def)

section \<open>Projection value\<close>

text \<open>
  Claim C10. For each of the four categories the function returns a number: for PRA the
  combined figure of the advanced metrics, for PTS, REB and AST the field of that name of
  the predicted stats, and 0 when that field is absent (or is 0 or \<^verbatim>\<open>NaN\<close>).
\<close>

theorem projection_value_total:
  "getProjectionValue player PRA = advanced_PRA player
   \<and> (predicted_stats player ''PTS'' = Some v \<longrightarrow> getProjectionValue player PTS = v)
   \<and> (predicted_stats player ''PTS'' = None \<longrightarrow> getProjectionValue player PTS = 0)
   \<and> (predicted_stats player ''REB'' = Some v \<longrightarrow> getProjectionValue player REB = v)
   \<and> (predicted_stats player ''REB'' = None \<longrightarrow> getProjectionValue player REB = 0)
   \<and> (predicted_stats player ''AST'' = Some v \<longrightarrow> getProjectionValue player AST = v)
   \<and> (predicted_stats player ''AST'' = None \<longrightarrow> getProjectionValue player AST = 0)"
  by (simp add: getProjectionValue_def orZero_def)


theorem projection_value_total_witness:
  "predicted_stats \<lparr>player_id = 2544, team = ''LAL'',
       predicted_stats = (\<lambda>k. None)(''PTS'' := Some (49 / 2), ''AST'' := Some 0),
       advanced_PRA = 81 / 2\<rparr> ''PTS'' = Some (49 / 2)
   \<and> getProjectionValue \<lparr>player_id = 2544, team = ''LAL'',
       predicted_stats = (\<lambda>k. None)(''PTS'' := Some (49 / 2), ''AST'' := Some 0),
       advanced_PRA = 81 / 2\<rparr> PTS = 49 / 2
   \<and> predicted_stats \<lparr>player_id = 2544, team = ''LAL'',
       predicted_stats = (\<lambda>k. None)(''PTS'' := Some (49 / 2), ''AST'' := Some 0),
       advanced_PRA = 81 / 2\<rparr> ''REB'' = None
   \<and> getProjectionValue \<lparr>player_id = 2544, team = ''LAL'',
       predicted_stats = (\<lambda>k. None)(''PTS'' := Some (49 / 2), ''AST'' := Some 0),
       advanced_PRA = 81 / 2\<rparr> REB = 0
   \<and> getProjectionValue \<lparr>player_id = 2544, team = ''LAL'',
       predicted_stats = (\<lambda>k. None)(''PTS'' := Some (49 / 2), ''AST'' := Some 0),
       advanced_PRA = 81 / 2\<rparr> AST = 0
   \<and> getProjectionValue \<lparr>player_id = 2544, team = ''LAL'',
       predicted_stats = (\<lambda>k. None)(''PTS'' := Some (49 / 2), ''AST'' := Some 0),
       advanced_PRA = 81 / 2\<rparr> PRA = 81 / 2"
  using projection_value_total
          [of "\<lparr>player_id = 2544, team = ''LAL'',
                predicted_stats = (\<lambda>k. None)(''PTS'' := Some (49 / 2), ''AST'' := Some 0),
                advanced_PRA = 81 / 2\<rparr>" "49 / 2"]
        projection_value_total
          [of "\<lparr>player_id = 2544, team = ''LAL'',
                predicted_stats = (\<lambda>k. None)(''PTS'' := Some (49 / 2), ''AST'' := Some 0),
                advanced_PRA = 81 / 2\<rparr>" 0]
  by simp

end
